theory Spec2Isabelle
  imports Main "HOL-Library.Word"
begin

unbundle bit_operations_syntax

section \<open>Provably fair number generation: the model of \<^verbatim>\<open>provably-fair.js\<close>\<close>

text \<open>
  The development embeds the algorithmic core of \<^verbatim>\<open>src/provably-fair.js\<close>:
  \<^verbatim>\<open>readUInt32BE\<close>, \<^verbatim>\<open>getUniqueNumbersFromRange\<close>, \<^verbatim>\<open>getNumberFromRange\<close> and
  \<^verbatim>\<open>getHashBySeed\<close>, together with the variant of \<^verbatim>\<open>getHashBySeed\<close> that
  \<^verbatim>\<open>src/app.js\<close> embeds.

  Conventions of the embedding.
  \<^item> JavaScript numbers that the interface declares as integers (count, bounds, nonce) are
    \<open>int\<close>; the \<^verbatim>\<open>BigInt\<close> values of the sampler are \<open>int\<close> as well.
  \<^item> A JavaScript string is a \<open>string\<close>; one \<open>char\<close> stands for one UTF-16 code unit
    below 256, so the model covers the strings whose code units are all below 256.
  \<^item> A \<^verbatim>\<open>Uint8Array\<close> is a list of 8-bit words; a read past its end yields
    \<^verbatim>\<open>undefined\<close>, which the bitwise operators of \<^verbatim>\<open>readUInt32BE\<close> coerce to 0.
  \<^item> \<^verbatim>\<open>createHmac(key, message)\<close> is a parameter \<open>createHmac\<close> of the functions that
    call it: the keyed hash is supplied by the platform. Section \<open>HMAC-SHA256\<close> defines
    the function the platform computes, for the statements that depend on digest values.
  \<^item> A thrown \<^verbatim>\<open>Error\<close> is a value \<open>Inl e\<close>; a call that never returns is \<open>None\<close>.
  \<^item> A JavaScript \<^verbatim>\<open>Set\<close> is the list of its elements in insertion order, which is the
    order \<^verbatim>\<open>Array.from\<close> returns.
\<close>

type_synonym u8 = "8 word"
type_synonym u32 = "32 word"

text \<open>\<^verbatim>\<open>createHmac(key, message)\<close>: the digest bytes.\<close>
type_synonym hmac_fn = "string \<Rightarrow> string \<Rightarrow> u8 list"

subsection \<open>Template literals\<close>

text \<open>
  \<^verbatim>\<open>`${n}`\<close> for an integer \<open>n\<close>: its decimal digits, with a leading minus sign when
  negative (the rendering of JavaScript for integers of magnitude below \<open>10^21\<close>).
\<close>

definition digit_char :: "nat \<Rightarrow> char" where
  "digit_char d = ''0123456789'' ! d"

function string_of_nat :: "nat \<Rightarrow> string" where
  "string_of_nat n =
     (if n < 10 then [digit_char n]
      else string_of_nat (n div 10) @ [digit_char (n mod 10)])"
  by pat_completeness auto
termination
  by (relation "measure id") auto

declare string_of_nat.simps [simp del]

definition number_to_string :: "int \<Rightarrow> string" where
  "number_to_string n =
     (if n < 0 then CHR ''-'' # string_of_nat (nat (- n)) else string_of_nat (nat n))"

subsection \<open>Errors\<close>

text \<open>
  One constructor for each \<^verbatim>\<open>throw\<close> of the source:
  \<^item> \<open>CountNotPositive\<close>: \<^verbatim>\<open>'count must be > 0'\<close>;
  \<^item> \<open>UpperBelowLower\<close>: \<^verbatim>\<open>'upper must be >= lower'\<close>;
  \<^item> \<open>CountExceedsRange count totalRange\<close>:
    \<^verbatim>\<open>`Cannot generate ${count} unique numbers from range of ${totalRange}`\<close>;
  \<^item> \<open>FailedToGenerate\<close>: \<^verbatim>\<open>'Failed to generate any numbers'\<close>.
\<close>

datatype error =
    CountNotPositive
  | UpperBelowLower
  | CountExceedsRange int int
  | FailedToGenerate



subsection \<open>\<^verbatim>\<open>readUInt32BE\<close>\<close>

text \<open>
  \<^verbatim>\<open>buffer[i]\<close> as an operand of \<^verbatim>\<open><<\<close> or \<^verbatim>\<open>|\<close>: the byte as a 32-bit integer, and
  0 for \<^verbatim>\<open>undefined\<close>.
\<close>

definition byte_at :: "u8 list \<Rightarrow> nat \<Rightarrow> u32" where
  "byte_at buffer i = (if i < length buffer then ucast (buffer ! i) else 0)"

text \<open>
  \<^verbatim>\<open>((buffer[offset] << 24) | (buffer[offset + 1] << 16) | (buffer[offset + 2] << 8) |
  buffer[offset + 3]) >>> 0\<close>: the bitwise operators work on 32 bits, and \<^verbatim>\<open>>>> 0\<close> reads
  the result as unsigned.
\<close>

definition readUInt32BE :: "u8 list \<Rightarrow> nat \<Rightarrow> int" where
  "readUInt32BE buffer offset =
     uint (((push_bit 24 (byte_at buffer offset) OR
             push_bit 16 (byte_at buffer (offset + 1))) OR
             push_bit 8 (byte_at buffer (offset + 2))) OR
             byte_at buffer (offset + 3))"

subsection \<open>The sampler and the selection loop\<close>

definition MAX_UINT32 :: int where
  "MAX_UINT32 = 0xffffffff"

text \<open>\<^verbatim>\<open>limit = MAX_UINT32 - (MAX_UINT32 % range)\<close>.\<close>

definition limit :: "int \<Rightarrow> int" where
  "limit range' = MAX_UINT32 - (MAX_UINT32 mod range')"

text \<open>
  The variables the loop of \<^verbatim>\<open>getUniqueNumbersFromRange\<close> updates. \<open>calls\<close> is not a
  variable of the source: it records the \<^verbatim>\<open>createHmac\<close> calls made so far as pairs of
  key and message, oldest first.
\<close>

record draw_state =
  digest :: "u8 list"
  cursor :: nat
  digestIndex :: nat
  results :: "int list"
  calls :: "(string \<times> string) list"

text \<open>The state at the loop's entry: block 0 has been requested with \<open>baseMsg\<close>.\<close>

definition initial_state :: "hmac_fn \<Rightarrow> string \<Rightarrow> string \<Rightarrow> draw_state" where
  "initial_state createHmac serverSeed baseMsg =
     \<lparr>digest = createHmac serverSeed baseMsg, cursor = 0, digestIndex = 0,
      results = [], calls = [(serverSeed, baseMsg)]\<rparr>"

text \<open>
  \<^verbatim>\<open>if (cursor + 4 > digest.length) { digestIndex += 1; ... digest = combined; }\<close>
\<close>

definition extend_digest :: "hmac_fn \<Rightarrow> string \<Rightarrow> string \<Rightarrow> draw_state \<Rightarrow> draw_state" where
  "extend_digest createHmac serverSeed baseMsg st =
     (if cursor st + 4 > length (digest st) then
        (let i = digestIndex st + 1;
             msg = baseMsg @ '':'' @ number_to_string (int i);
             newDigest = createHmac serverSeed msg
         in st\<lparr>digest := digest st @ newDigest, digestIndex := i,
                calls := calls st @ [(serverSeed, msg)]\<rparr>)
      else st)"

text \<open>
  \<^verbatim>\<open>const num = BigInt(readUInt32BE(digest, cursor)); cursor += 4;
  if (num < limit) { const result = Number((num % range) + BigInt(lower));
                     if (!results.has(result)) results.add(result); }\<close>
\<close>

definition sample :: "int \<Rightarrow> int \<Rightarrow> draw_state \<Rightarrow> draw_state" where
  "sample range' lower st =
     (let num = readUInt32BE (digest st) (cursor st);
          st' = st\<lparr>cursor := cursor st + 4\<rparr>
      in if num < limit range' then
           (let result = num mod range' + lower
            in if result \<in> set (results st') then st'
               else st'\<lparr>results := results st' @ [result]\<rparr>)
         else st')"

text \<open>One iteration of the \<^verbatim>\<open>while\<close> loop.\<close>

definition loop_body ::
    "hmac_fn \<Rightarrow> string \<Rightarrow> string \<Rightarrow> int \<Rightarrow> int \<Rightarrow> draw_state \<Rightarrow> draw_state" where
  "loop_body createHmac serverSeed baseMsg range' lower st =
     sample range' lower (extend_digest createHmac serverSeed baseMsg st)"

text \<open>\<^verbatim>\<open>while (results.size < targetCount) { ... }\<close>; \<open>None\<close> when the loop never ends.\<close>

partial_function (option) draw_loop ::
    "hmac_fn \<Rightarrow> string \<Rightarrow> string \<Rightarrow> int \<Rightarrow> int \<Rightarrow> int \<Rightarrow> draw_state \<Rightarrow> draw_state option" where
  "draw_loop createHmac serverSeed baseMsg range' lower targetCount st =
     (if int (length (results st)) < targetCount
      then draw_loop createHmac serverSeed baseMsg range' lower targetCount
             (loop_body createHmac serverSeed baseMsg range' lower st)
      else Some st)"

subsection \<open>\<^verbatim>\<open>getUniqueNumbersFromRange\<close> and \<^verbatim>\<open>getNumberFromRange\<close>\<close>

text \<open>
  \<^verbatim>\<open>count > totalRange / 2\<close> divides as a floating-point number; on integers it is
  \<open>2 * count > totalRange\<close>.
\<close>

definition getUniqueNumbersFromRange ::
    "hmac_fn \<Rightarrow> int \<Rightarrow> int \<times> int \<Rightarrow> string \<Rightarrow> int \<Rightarrow> string \<Rightarrow> (error + int list) option" where
  "getUniqueNumbersFromRange createHmac count rng serverSeed nonce clientSeed =
     (if count \<le> 0 then Some (Inl CountNotPositive)
      else
        (let lower = fst rng; upper = snd rng
         in if upper < lower then Some (Inl UpperBelowLower)
            else
              (let totalRange = upper - lower + 1
               in if count > totalRange then Some (Inl (CountExceedsRange count totalRange))
                  else
                    (let shouldUseInversion = (2 * count > totalRange);
                         targetCount = (if shouldUseInversion then totalRange - count else count);
                         baseMsg = clientSeed @ '':'' @ number_to_string nonce
                     in case draw_loop createHmac serverSeed baseMsg totalRange lower targetCount
                               (initial_state createHmac serverSeed baseMsg) of
                          None \<Rightarrow> None
                        | Some st \<Rightarrow>
                            if shouldUseInversion
                            then Some (Inr (filter (\<lambda>i. i \<notin> set (results st)) [lower..upper]))
                            else Some (Inr (results st))))))"

definition getNumberFromRange ::
    "hmac_fn \<Rightarrow> int \<times> int \<Rightarrow> string \<Rightarrow> int \<Rightarrow> string \<Rightarrow> (error + int) option" where
  "getNumberFromRange createHmac rng serverSeed nonce clientSeed =
     (case getUniqueNumbersFromRange createHmac 1 rng serverSeed nonce clientSeed of
        None \<Rightarrow> None
      | Some (Inl e) \<Rightarrow> Some (Inl e)
      | Some (Inr numbers) \<Rightarrow>
          if length numbers = 0 then Some (Inl FailedToGenerate)
          else Some (Inr (numbers ! 0)))"

subsection \<open>\<^verbatim>\<open>getHashBySeed\<close>\<close>

text \<open>
  The line terminators of a JavaScript regular expression that are code units below 256:
  line feed and carriage return. Without the \<^verbatim>\<open>s\<close> flag the dot matches every code unit
  but a line terminator.
\<close>

definition is_line_terminator :: "char \<Rightarrow> bool" where
  "is_line_terminator c = (c = CHR 0x0A \<or> c = CHR 0x0D)"

text \<open>
  \<^verbatim>\<open>seed.match(/.{1,2}/g)\<close>: the matches from left to right, each one or two code units
  that the dot matches, as many as possible; a position where the dot does not match is
  skipped. The empty list stands for \<^verbatim>\<open>null\<close> (no match).
\<close>

fun match_chunks :: "string \<Rightarrow> string list" where
  "match_chunks [] = []"
| "match_chunks [a] = (if is_line_terminator a then [] else [[a]])"
| "match_chunks (a # b # rest) =
     (if is_line_terminator a then match_chunks (b # rest)
      else if is_line_terminator b then [a] # match_chunks (b # rest)
      else [a, b] # match_chunks rest)"

text \<open>\<^verbatim>\<open>seed.match(/.{1,2}/g)?.reverse().join('') ?? seed\<close>\<close>

definition salt_of :: "string \<Rightarrow> string" where
  "salt_of seed = (case match_chunks seed of [] \<Rightarrow> seed | c # cs \<Rightarrow> concat (rev (c # cs)))"

text \<open>\<^verbatim>\<open>b.toString(16).padStart(2, '0')\<close>, joined over the digest.\<close>

definition hex_digit :: "nat \<Rightarrow> char" where
  "hex_digit d = ''0123456789abcdef'' ! d"

definition hex_of_bytes :: "u8 list \<Rightarrow> string" where
  "hex_of_bytes bs = concat (map (\<lambda>b. [hex_digit (unat b div 16), hex_digit (unat b mod 16)]) bs)"

text \<open>\<^verbatim>\<open>src/provably-fair.js\<close>: the key is \<^verbatim>\<open>seed + salt\<close>, the message is empty.\<close>

definition getHashBySeed :: "hmac_fn \<Rightarrow> string \<Rightarrow> string" where
  "getHashBySeed createHmac seed = hex_of_bytes (createHmac (seed @ salt_of seed) [])"

text \<open>The variant embedded in \<^verbatim>\<open>src/app.js\<close>: the key is \<^verbatim>\<open>seed\<close>, the message
  \<^verbatim>\<open>seed + salt\<close>.\<close>

definition getHashBySeed_embedded :: "hmac_fn \<Rightarrow> string \<Rightarrow> string" where
  "getHashBySeed_embedded createHmac seed = hex_of_bytes (createHmac seed (seed @ salt_of seed))"

subsection \<open>HMAC-SHA256\<close>

text \<open>
  The keyed hash that \<^verbatim>\<open>createHmac\<close> obtains from the platform
  (\<^verbatim>\<open>crypto.subtle.sign\<close> with \<^verbatim>\<open>{ name: 'HMAC', hash: 'SHA-256' }\<close>, or
  \<^verbatim>\<open>CryptoJS.HmacSHA256\<close>): SHA-256 as in FIPS 180-4 and HMAC as in RFC 2104, on the
  UTF-8 bytes of key and message. Bytes and 32-bit words are integers here, with the
  reduction modulo \<open>2^32\<close> written out.
\<close>

definition add32 :: "int \<Rightarrow> int \<Rightarrow> int" where
  "add32 x y = take_bit 32 (x + y)"

definition rotr :: "nat \<Rightarrow> int \<Rightarrow> int" where
  "rotr n x = drop_bit n x OR push_bit (32 - n) (take_bit n x)"

definition Ch :: "int \<Rightarrow> int \<Rightarrow> int \<Rightarrow> int" where
  "Ch x y z = (x AND y) XOR ((0xffffffff - x) AND z)"

definition Maj :: "int \<Rightarrow> int \<Rightarrow> int \<Rightarrow> int" where
  "Maj x y z = (x AND y) XOR (x AND z) XOR (y AND z)"

definition Sigma0 :: "int \<Rightarrow> int" where
  "Sigma0 x = rotr 2 x XOR rotr 13 x XOR rotr 22 x"

definition Sigma1 :: "int \<Rightarrow> int" where
  "Sigma1 x = rotr 6 x XOR rotr 11 x XOR rotr 25 x"

definition sigma0 :: "int \<Rightarrow> int" where
  "sigma0 x = rotr 7 x XOR rotr 18 x XOR drop_bit 3 x"

definition sigma1 :: "int \<Rightarrow> int" where
  "sigma1 x = rotr 17 x XOR rotr 19 x XOR drop_bit 10 x"

text \<open>The round constants and the initial hash value of SHA-256, in decimal.\<close>

definition K256 :: "int list" where
  "K256 =
    [1116352408, 1899447441, 3049323471, 3921009573, 961987163,
     1508970993, 2453635748, 2870763221, 3624381080, 310598401,
     607225278, 1426881987, 1925078388, 2162078206, 2614888103,
     3248222580, 3835390401, 4022224774, 264347078, 604807628,
     770255983, 1249150122, 1555081692, 1996064986, 2554220882,
     2821834349, 2952996808, 3210313671, 3336571891, 3584528711,
     113926993, 338241895, 666307205, 773529912, 1294757372,
     1396182291, 1695183700, 1986661051, 2177026350, 2456956037,
     2730485921, 2820302411, 3259730800, 3345764771, 3516065817,
     3600352804, 4094571909, 275423344, 430227734, 506948616,
     659060556, 883997877, 958139571, 1322822218, 1537002063,
     1747873779, 1955562222, 2024104815, 2227730452, 2361852424,
     2428436474, 2756734187, 3204031479, 3329325298]"

definition H256 :: "int list" where
  "H256 =
    [1779033703, 3144134277, 1013904242, 2773480762,
     1359893119, 2600822924, 528734635, 1541459225]"

text \<open>
  The message schedule, one word for each round constant: \<open>w\<close> holds the sixteen words
  \<open>W\<^sub>t, \<dots>, W\<^sub>t\<^sub>+\<^sub>1\<^sub>5\<close>, and \<open>W\<^sub>t\<^sub>+\<^sub>1\<^sub>6 = \<sigma>\<^sub>1(W\<^sub>t\<^sub>+\<^sub>1\<^sub>4) + W\<^sub>t\<^sub>+\<^sub>9 + \<sigma>\<^sub>0(W\<^sub>t\<^sub>+\<^sub>1) + W\<^sub>t\<close>.
\<close>

fun schedule :: "int list \<Rightarrow> int list \<Rightarrow> int list" where
  "schedule [] w = []"
| "schedule (k # ks) w =
     hd w # schedule ks
       (tl w @ [add32 (add32 (sigma1 (w ! 14)) (w ! 9)) (add32 (sigma0 (w ! 1)) (w ! 0))])"

fun round256 :: "int list \<Rightarrow> int \<times> int \<Rightarrow> int list" where
  "round256 [a, b, c, d, e, f, g, h] (k, w) =
     (let t1 = add32 (add32 (add32 h (Sigma1 e)) (add32 (Ch e f g) k)) w;
          t2 = add32 (Sigma0 a) (Maj a b c)
      in [add32 t1 t2, a, b, c, add32 d t1, e, f, g])"
| "round256 hs kw = hs"

fun words_of :: "int list \<Rightarrow> int list" where
  "words_of (a # b # c # d # rest) = (((a * 256 + b) * 256 + c) * 256 + d) # words_of rest"
| "words_of bs = []"

definition compress :: "int list \<Rightarrow> int list \<Rightarrow> int list" where
  "compress hs block =
     map2 add32 hs (foldl round256 hs (zip K256 (schedule K256 (words_of block))))"

definition be_bytes :: "nat \<Rightarrow> int \<Rightarrow> int list" where
  "be_bytes n v = map (\<lambda>i. (v div 256 ^ (n - 1 - i)) mod 256) [0..<n]"

definition pad256 :: "int list \<Rightarrow> int list" where
  "pad256 m = m @ [0x80] @ replicate ((119 - length m mod 64) mod 64) 0
                @ be_bytes 8 (8 * int (length m))"

fun blocks :: "int list \<Rightarrow> int list list" where
  "blocks [] = []"
| "blocks (b # bs) = take 64 (b # bs) # blocks (drop 64 (b # bs))"

definition sha256 :: "int list \<Rightarrow> int list" where
  "sha256 m = concat (map (be_bytes 4) (foldl compress H256 (blocks (pad256 m))))"

definition hmac_key_block :: "int list \<Rightarrow> int list" where
  "hmac_key_block key =
     (let k = (if length key > 64 then sha256 key else key)
      in k @ replicate (64 - length k) 0)"

definition hmac_sha256_bytes :: "int list \<Rightarrow> int list \<Rightarrow> int list" where
  "hmac_sha256_bytes key message =
     (let kb = hmac_key_block key
      in sha256 (map (\<lambda>x. x XOR 0x5c) kb @ sha256 (map (\<lambda>x. x XOR 0x36) kb @ message)))"

text \<open>UTF-8 of a string whose code units are below 256 (\<^verbatim>\<open>TextEncoder.encode\<close>).\<close>

definition utf8_encode :: "string \<Rightarrow> int list" where
  "utf8_encode str =
     concat (map (\<lambda>ch. let n = of_char ch in
                        if n < 128 then [n] else [192 + n div 64, 128 + n mod 64]) str)"

definition hmac_sha256 :: hmac_fn where
  "hmac_sha256 key message =
     map word_of_int (hmac_sha256_bytes (utf8_encode key) (utf8_encode message))"

subsection \<open>Notions used in the statements\<close>

text \<open>The state after \<open>n\<close> iterations of the loop.\<close>

definition draws :: "hmac_fn \<Rightarrow> string \<Rightarrow> string \<Rightarrow> int \<Rightarrow> int \<Rightarrow> nat \<Rightarrow> draw_state" where
  "draws createHmac serverSeed baseMsg range' lower n =
     ((loop_body createHmac serverSeed baseMsg range' lower) ^^ n)
       (initial_state createHmac serverSeed baseMsg)"

text \<open>The value \<^verbatim>\<open>num\<close> that the iteration starting in \<open>st\<close> reads.\<close>

definition drawn_value :: "hmac_fn \<Rightarrow> string \<Rightarrow> string \<Rightarrow> draw_state \<Rightarrow> int" where
  "drawn_value createHmac serverSeed baseMsg st =
     (let st' = extend_digest createHmac serverSeed baseMsg st
      in readUInt32BE (digest st') (cursor st'))"

text \<open>The values that the first \<open>n\<close> iterations accept, in the order of the draws.\<close>

definition accepted_values ::
    "hmac_fn \<Rightarrow> string \<Rightarrow> string \<Rightarrow> int \<Rightarrow> int \<Rightarrow> nat \<Rightarrow> int list" where
  "accepted_values createHmac serverSeed baseMsg range' lower n =
     List.map_filter
       (\<lambda>i. let num = drawn_value createHmac serverSeed baseMsg
                         (draws createHmac serverSeed baseMsg range' lower i)
            in if num < limit range' then Some (num mod range' + lower) else None)
       [0..<n]"

text \<open>A list without its repetitions: of each value the first occurrence stays.\<close>

definition keep_first :: "'a list \<Rightarrow> 'a list" where
  "keep_first xs = rev (remdups (rev xs))"







text \<open>
  The salt in the words of the specification: the seed split into consecutive chunks of
  two characters, the last one of a single character when the length is odd, and the
  chunks concatenated in reverse order; the seed itself when there is no chunk.
\<close>

fun chunks2 :: "string \<Rightarrow> string list" where
  "chunks2 [] = []"
| "chunks2 [a] = [[a]]"
| "chunks2 (a # b # rest) = [a, b] # chunks2 rest"

definition spec_salt :: "string \<Rightarrow> string" where
  "spec_salt seed = (if chunks2 seed = [] then seed else concat (rev (chunks2 seed)))"


section \<open>Properties\<close>

subsection \<open>Reading a word\<close>

lemma or_shifted_add:
  fixes x y :: int
  assumes "0 \<le> y" "y < 2 ^ n"
  shows "x * 2 ^ n OR y = x * 2 ^ n + y"
proof -
  have "take_bit n y = y"
    using assms by (simp add: take_bit_int_eq_self)
  then have "concat_bit n y x = y + push_bit n x"
    by (simp add: concat_bit_eq)
  moreover have "concat_bit n y x = y OR push_bit n x"
    using \<open>take_bit n y = y\<close> by (simp add: concat_bit_def)
  ultimately show ?thesis
    by (simp add: push_bit_eq_mult or.commute add.commute)
qed

lemma uint_byte_at_bounds: "0 \<le> uint (byte_at buffer i) \<and> uint (byte_at buffer i) < 256"
proof (cases "i < length buffer")
  case True
  have "uint (ucast (buffer ! i) :: u32) = uint (buffer ! i)"
    by (simp add: uint_up_ucast is_up)
  moreover have "uint (buffer ! i) < 2 ^ 8"
    using uint_lt2p [of "buffer ! i"] by simp
  ultimately show ?thesis
    using True by (simp add: byte_at_def)
next
  case False
  then show ?thesis by (simp add: byte_at_def)
qed

lemma uint_push_bit_small:
  fixes a :: u32
  assumes "uint a < 256" "n \<le> 24"
  shows "uint (push_bit n a) = uint a * 2 ^ n"
proof -
  have "uint a * 2 ^ n < 256 * 2 ^ n"
    using assms(1) by simp
  also have "(256::int) * 2 ^ n = 2 ^ (8 + n)"
    by (simp add: power_add)
  also have "\<dots> \<le> 2 ^ 32"
    using assms(2) by (intro power_increasing) auto
  finally have "uint a * 2 ^ n < 2 ^ 32" .
  moreover have "0 \<le> uint a * 2 ^ n" by simp
  ultimately show ?thesis
    unfolding unsigned_push_bit_eq
    by (simp add: push_bit_eq_mult take_bit_int_eq_self)
qed

lemma readUInt32BE_arith:
  "readUInt32BE buffer offset =
     ((uint (byte_at buffer offset) * 256 + uint (byte_at buffer (offset + 1))) * 256
        + uint (byte_at buffer (offset + 2))) * 256 + uint (byte_at buffer (offset + 3))"
proof -
  define a where "a = uint (byte_at buffer offset)"
  define b where "b = uint (byte_at buffer (offset + 1))"
  define c where "c = uint (byte_at buffer (offset + 2))"
  define d where "d = uint (byte_at buffer (offset + 3))"
  have bounds: "0 \<le> a" "a < 256" "0 \<le> b" "b < 256" "0 \<le> c" "c < 256" "0 \<le> d" "d < 256"
    using uint_byte_at_bounds by (simp_all add: a_def b_def c_def d_def)
  have "readUInt32BE buffer offset = ((a * 2 ^ 24 OR b * 2 ^ 16) OR c * 2 ^ 8) OR d"
    using bounds
    by (simp add: readUInt32BE_def uint_or uint_push_bit_small a_def b_def c_def d_def)
  also have "a * 2 ^ 24 OR b * 2 ^ 16 = a * 2 ^ 24 + b * 2 ^ 16"
    using bounds by (intro or_shifted_add) auto
  also have "a * 2 ^ 24 + b * 2 ^ 16 = (a * 256 + b) * 2 ^ 16"
    by simp
  also have "(a * 256 + b) * 2 ^ 16 OR c * 2 ^ 8 = (a * 256 + b) * 2 ^ 16 + c * 2 ^ 8"
    using bounds by (intro or_shifted_add) auto
  also have "(a * 256 + b) * 2 ^ 16 + c * 2 ^ 8 = ((a * 256 + b) * 256 + c) * 2 ^ 8"
    by simp
  also have "((a * 256 + b) * 256 + c) * 2 ^ 8 OR d = ((a * 256 + b) * 256 + c) * 2 ^ 8 + d"
    using bounds by (intro or_shifted_add) auto
  finally show ?thesis
    by (simp add: a_def b_def c_def d_def)
qed

subsection \<open>The loop\<close>





lemma cursor_loop_body [simp]: "cursor (loop_body h s b r l st) = cursor st + 4"
  by (simp add: loop_body_def sample_def extend_digest_def Let_def)

lemma results_extend_digest [simp]: "results (extend_digest h s b st) = results st"
  by (simp add: extend_digest_def Let_def)

lemma results_loop_body:
  "results (loop_body h s b r l st) =
     (let num = drawn_value h s b st in
      if num < limit r \<and> num mod r + l \<notin> set (results st)
      then results st @ [num mod r + l] else results st)"
  by (simp add: loop_body_def sample_def drawn_value_def Let_def)

lemma draws_0 [simp]: "draws h s b r l 0 = initial_state h s b"
  by (simp add: draws_def)

lemma draws_Suc [simp]: "draws h s b r l (Suc n) = loop_body h s b r l (draws h s b r l n)"
  by (simp add: draws_def)



lemma length_results_draws_mono:
  "length (results (draws h s b r l n)) \<le> length (results (draws h s b r l (Suc n)))"
  by (simp add: results_loop_body Let_def)




subsection \<open>The call as a whole\<close>











subsection \<open>The sampler\<close>








subsection \<open>Ranges beyond the sampler\<close>





subsection \<open>Results, errors and the inversion\<close>













subsection \<open>The order of the output\<close>


lemma set_keep_first [simp]: "set (keep_first xs) = set xs"
  by (simp add: keep_first_def)

lemma keep_first_Nil [simp]: "keep_first [] = []"
  by (simp add: keep_first_def)

lemma accepted_values_0 [simp]: "accepted_values h s b r l 0 = []"
  by (simp add: accepted_values_def map_filter_simps)








subsection \<open>The stream of digests\<close>



lemma sample_frame [simp]:
  "calls (sample r l st) = calls st" "digestIndex (sample r l st) = digestIndex st"
  "digest (sample r l st) = digest st"
  by (simp_all add: sample_def Let_def)




lemma cursor_extend_digest [simp]: "cursor (extend_digest h s b st) = cursor st"
  by (simp add: extend_digest_def Let_def)











lemma length_be_bytes [simp]: "length (be_bytes n v) = n"
  by (simp add: be_bytes_def)





subsection \<open>The seed commitment\<close>

lemma match_chunks_eq_chunks2:
  assumes "\<forall>ch\<in>set seed. \<not> is_line_terminator ch"
  shows "match_chunks seed = chunks2 seed"
  using assms by (induction seed rule: chunks2.induct) simp_all

lemma salt_of_eq_spec_salt:
  assumes "\<forall>ch\<in>set seed. \<not> is_line_terminator ch"
  shows "salt_of seed = spec_salt seed"
  using match_chunks_eq_chunks2 [OF assms]
  by (simp add: salt_of_def spec_salt_def split: list.splits)

lemma hex_of_bytes_lowercase:
  "length (hex_of_bytes bs) = 2 * length bs \<and> set (hex_of_bytes bs) \<subseteq> set ''0123456789abcdef''"
proof -
  have d: "hex_digit k \<in> set ''0123456789abcdef''" if "k < 16" for k
    unfolding hex_digit_def using that by (intro nth_mem) simp
  have "unat b div 16 < 16 \<and> unat b mod 16 < 16" for b :: u8
  proof -
    have "unat b < 2 ^ LENGTH(8)" by (rule unsigned_less)
    then show ?thesis by simp
  qed
  with d have "set [hex_digit (unat b div 16), hex_digit (unat b mod 16)] \<subseteq> set ''0123456789abcdef''"
    for b :: u8 by simp
  then have "set (hex_of_bytes bs) \<subseteq> set ''0123456789abcdef''"
    unfolding hex_of_bytes_def by (induction bs) simp_all
  moreover have "length (hex_of_bytes bs) = 2 * length bs"
    unfolding hex_of_bytes_def by (induction bs) simp_all
  ultimately show ?thesis by blast
qed

section \<open>Worked examples\<close>

text \<open>
  The examples run the model on the server seed \<^verbatim>\<open>abc\<close>, the client seed \<^verbatim>\<open>x\<close> and the
  nonce 1, with HMAC-SHA256 as the keyed hash. The digests are computed inside the
  logic from the definitions of Section \<open>HMAC-SHA256\<close>; they are the digests that any
  implementation of HMAC-SHA256 gives for these keys and messages.
\<close>

text \<open>
  Two published known answers: the SHA-256 digest of \<^verbatim>\<open>abc\<close> (FIPS 180) and test case 2
  of RFC 4231 for HMAC-SHA256.
\<close>

lemma sha256_abc:
  "sha256 [97, 98, 99] =
     [186, 120, 22, 191, 143, 1, 207, 234, 65, 65, 64, 222, 93, 174, 34, 35,
      176, 3, 97, 163, 150, 23, 122, 156, 180, 16, 255, 97, 242, 0, 21, 173]"
  by code_simp

lemma hmac_sha256_rfc4231_case_2:
  "hex_of_bytes (hmac_sha256 ''Jefe'' ''what do ya want for nothing?'')
     = ''5bdcc146bf60754e6a042426089575c75a003f089d2739839dec58b964ec3843''"
proof -
  have "hmac_sha256_bytes [74, 101, 102, 101]
          [119, 104, 97, 116, 32, 100, 111, 32, 121, 97, 32, 119, 97, 110, 116, 32,
           102, 111, 114, 32, 110, 111, 116, 104, 105, 110, 103, 63]
        = [91, 220, 193, 70, 191, 96, 117, 78, 106, 4, 36, 38, 8, 149, 117, 199,
           90, 0, 63, 8, 157, 39, 57, 131, 157, 236, 88, 185, 100, 236, 56, 67]"
    by code_simp
  then show ?thesis
    by (simp add: hmac_sha256_def utf8_encode_def hex_of_bytes_def hex_digit_def)
qed

lemma hmac_sha256_bytes_abc_x1:
  "hmac_sha256_bytes [97, 98, 99] [120, 58, 49] =
     [168, 100, 206, 76, 33, 145, 60, 52, 243, 6, 246, 21, 110, 121, 5, 56,
      153, 110, 10, 75, 220, 221, 123, 5, 27, 44, 242, 83, 118, 24, 237, 105]"
  by code_simp

lemma hmac_sha256_abc_x1:
  "hmac_sha256 ''abc'' ''x:1'' =
     [168, 100, 206, 76, 33, 145, 60, 52, 243, 6, 246, 21, 110, 121, 5, 56,
      153, 110, 10, 75, 220, 221, 123, 5, 27, 44, 242, 83, 118, 24, 237, 105]"
  by (simp add: hmac_sha256_def utf8_encode_def hmac_sha256_bytes_abc_x1)


lemma uint_byte_at:
  "uint (byte_at buffer i) = (if i < length buffer then uint (buffer ! i) else 0)"
  by (simp add: byte_at_def uint_up_ucast is_up)

lemmas eval_simps =
  getUniqueNumbersFromRange_def getNumberFromRange_def Let_def number_to_string_def
  string_of_nat.simps digit_char_def initial_state_def draw_loop.simps loop_body_def
  extend_digest_def sample_def hmac_sha256_abc_x1 readUInt32BE_arith uint_byte_at limit_def
  MAX_UINT32_def upto.simps




lemma example_number:
  "getNumberFromRange hmac_sha256 (0, 10000) ''abc'' 1 ''x'' = Some (Inr 6211)"
  by (simp add: eval_simps)



















subsection \<open>The seed commitment at concrete seeds\<close>

lemma hmac_sha256_bytes_aa_empty:
  "hmac_sha256_bytes [97, 97] [] =
     [174, 49, 251, 124, 54, 11, 117, 215, 187, 158, 172, 182, 123, 219, 95, 228,
      62, 85, 52, 205, 197, 184, 254, 78, 233, 41, 121, 22, 41, 27, 174, 15]"
  by code_simp

lemma hmac_sha256_bytes_a_aa:
  "hmac_sha256_bytes [97] [97, 97] =
     [32, 255, 140, 23, 139, 50, 118, 125, 78, 245, 33, 100, 178, 169, 213, 54,
      3, 102, 54, 161, 101, 249, 0, 65, 55, 65, 109, 125, 126, 230, 248, 245]"
  by code_simp

lemma hmac_sha256_bytes_newline_code:
  "hmac_sha256_bytes [97, 10, 98, 98, 97] [] =
     [70, 210, 4, 203, 161, 196, 69, 69, 185, 235, 200, 7, 70, 47, 201, 180,
      6, 221, 229, 182, 211, 169, 147, 205, 98, 38, 242, 199, 45, 233, 116, 85]"
  by code_simp

lemma hmac_sha256_bytes_newline_spec:
  "hmac_sha256_bytes [97, 10, 98, 98, 97, 10] [] =
     [152, 97, 163, 183, 227, 181, 18, 65, 46, 236, 20, 13, 221, 115, 113, 194,
      72, 209, 79, 182, 143, 22, 58, 218, 236, 19, 4, 42, 93, 33, 138, 98]"
  by code_simp

lemma example_salts:
  "salt_of ''a'' = ''a''"
  "salt_of [CHR ''a'', CHR 0x0A, CHR ''b''] = ''ba''"
  "spec_salt [CHR ''a'', CHR 0x0A, CHR ''b''] = [CHR ''b'', CHR ''a'', CHR 0x0A]"
  by (simp_all add: salt_of_def spec_salt_def is_line_terminator_def)

lemma example_commitments:
  "getHashBySeed hmac_sha256 ''a''
     = ''ae31fb7c360b75d7bb9eacb67bdb5fe43e5534cdc5b8fe4ee9297916291bae0f''"
  "getHashBySeed_embedded hmac_sha256 ''a''
     = ''20ff8c178b32767d4ef52164b2a9d536036636a165f9004137416d7d7ee6f8f5''"
  by (simp_all add: getHashBySeed_def getHashBySeed_embedded_def example_salts hmac_sha256_def
        utf8_encode_def hmac_sha256_bytes_aa_empty hmac_sha256_bytes_a_aa hex_of_bytes_def
        hex_digit_def)

text \<open>
  Claim C5. The two forms of the seed commitment are not equivalent: for the seed
  \<^verbatim>\<open>a\<close>, \<^verbatim>\<open>getHashBySeed\<close> of \<^verbatim>\<open>provably-fair.js\<close> (key \<^verbatim>\<open>seed + salt\<close>, empty
  message) and the variant embedded in \<^verbatim>\<open>app.js\<close> (key \<^verbatim>\<open>seed\<close>, message
  \<^verbatim>\<open>seed + salt\<close>) return different hex digests under HMAC-SHA256.
\<close>

theorem commitment_forms_differ:
  "getHashBySeed hmac_sha256 ''a''
     = ''ae31fb7c360b75d7bb9eacb67bdb5fe43e5534cdc5b8fe4ee9297916291bae0f''
   \<and> getHashBySeed_embedded hmac_sha256 ''a''
     = ''20ff8c178b32767d4ef52164b2a9d536036636a165f9004137416d7d7ee6f8f5''
   \<and> (\<exists>seed. getHashBySeed hmac_sha256 seed \<noteq> getHashBySeed_embedded hmac_sha256 seed)"
proof -
  have "getHashBySeed hmac_sha256 ''a'' \<noteq> getHashBySeed_embedded hmac_sha256 ''a''"
    unfolding example_commitments by simp
  then have "\<exists>seed. getHashBySeed hmac_sha256 seed \<noteq> getHashBySeed_embedded hmac_sha256 seed"
    by blast
  then show ?thesis
    using example_commitments by simp
qed

lemma getHashBySeed_without_line_terminators:
  assumes "\<forall>ch\<in>set seed. \<not> is_line_terminator ch"
  shows "getHashBySeed h seed = hex_of_bytes (h (seed @ spec_salt seed) [])"
  using salt_of_eq_spec_salt [OF assms] by (simp add: getHashBySeed_def)

text \<open>
  Claim C4 at the seed \<^verbatim>\<open>a\<close>, line feed, \<^verbatim>\<open>b\<close>. The dot of \<^verbatim>\<open>/.{1,2}/g\<close> does not
  match the line feed, so the chunks are \<^verbatim>\<open>a\<close> and \<^verbatim>\<open>b\<close> and the salt of the code is
  \<^verbatim>\<open>ba\<close>; the chunks of two characters are \<^verbatim>\<open>a\<close> with the line feed, and \<^verbatim>\<open>b\<close>, and
  the salt of the claim is \<^verbatim>\<open>b\<close>, \<^verbatim>\<open>a\<close>, line feed. The commitment the code returns
  is not the one the claim describes.
\<close>

theorem getHashBySeed_line_feed:
  "salt_of [CHR ''a'', CHR 0x0A, CHR ''b''] = ''ba''
   \<and> spec_salt [CHR ''a'', CHR 0x0A, CHR ''b''] = [CHR ''b'', CHR ''a'', CHR 0x0A]
   \<and> getHashBySeed hmac_sha256 [CHR ''a'', CHR 0x0A, CHR ''b'']
       = ''46d204cba1c44545b9ebc807462fc9b406dde5b6d3a993cd6226f2c72de97455''
   \<and> hex_of_bytes (hmac_sha256 ([CHR ''a'', CHR 0x0A, CHR ''b'']
                                 @ spec_salt [CHR ''a'', CHR 0x0A, CHR ''b'']) [])
       = ''9861a3b7e3b512412eec140ddd7371c248d14fb68f163adaec13042a5d218a62''"
  by (simp add: getHashBySeed_def example_salts hmac_sha256_def utf8_encode_def
        hmac_sha256_bytes_newline_code hmac_sha256_bytes_newline_spec hex_of_bytes_def
        hex_digit_def)

end
